theory Spec2Isabelle
  imports Complex_Main
begin

section \<open>The AR two-point measurement script (script.js)\<close>

text \<open>
  The script keeps its state in module-level variables (\<open>points\<close>, \<open>measurementLine\<close>,
  \<open>measureUnit\<close>, \<open>hitTestSource\<close>, \<open>hitTestSourceRequested\<close>), in the reticle object
  and in a handful of DOM elements. Every handler runs to completion on one thread, so
  each handler is a function from the state before to the state after.

  JavaScript numbers are modelled as \<open>real\<close>: rounding error, NaN and the infinities
  of IEEE doubles are not represented.
\<close>

subsection \<open>Numbers to text: \<open>Number.prototype.toFixed(2)\<close>\<close>

definition digit :: "nat \<Rightarrow> char" where
  "digit d = ''0123456789'' ! d"

fun digits :: "nat \<Rightarrow> string" where
  "digits n = (if n < 10 then [digit n] else digits (n div 10) @ [digit (n mod 10)])"

declare digits.simps [simp del]

text \<open>
  \<open>x.toFixed(2)\<close> of ECMAScript: a negative number gives a minus sign and is negated;
  a magnitude of at least \<open>10^21\<close> is rendered by the general number-to-string
  conversion, which is the parameter \<open>numberToString\<close> here; otherwise \<open>n\<close> is the integer
  nearest to \<open>100 * x\<close> (the larger one at a tie) and the text is the decimal digits of
  \<open>n\<close>, padded to three digits, with a point before the last two.
\<close>

definition toFixed2 :: "(real \<Rightarrow> string) \<Rightarrow> real \<Rightarrow> string" where
  "toFixed2 numberToString v =
     (let s = (if v < 0 then ''-'' else '''');
          a = \<bar>v\<bar>
      in if 10 ^ 21 \<le> a then s @ numberToString a
         else let n = nat \<lfloor>a * 100 + 1 / 2\<rfloor>
              in s @ digits (n div 100) @ ''.'' @ [digit (n div 10 mod 10), digit (n mod 10)])"

subsection \<open>Reading a decimal text\<close>

text \<open>
  The number that a run of decimal digits denotes, to say what a formatted text stands
  for. It is not part of the script.
\<close>

definition digit_value :: "char \<Rightarrow> nat" where
  "digit_value c = of_char c - 48"

definition decimal :: "string \<Rightarrow> nat" where
  "decimal cs = foldl (\<lambda>n c. 10 * n + digit_value c) 0 cs"

subsection \<open>Vectors, poses and scene objects\<close>

record vec3 =
  vx :: real
  vy :: real
  vz :: real

text \<open>
  A pose's transform is the column-major array of 16 numbers that
  \<open>hit.getPose(referenceSpace).transform.matrix\<close> delivers; \<open>reticle.matrix.fromArray\<close>
  copies it, and \<open>setFromMatrixPosition\<close> reads the translation at indices 12, 13, 14.
\<close>

type_synonym matrix4 = "real list"

definition setFromMatrixPosition :: "matrix4 \<Rightarrow> vec3" where
  "setFromMatrixPosition m = \<lparr>vx = m ! 12, vy = m ! 13, vz = m ! 14\<rparr>"

text \<open>
  Modelled from the spec: \<open>Vector3.distanceTo\<close> belongs to the three.js library, which
  is not part of the source; it is the Euclidean distance between the two positions.
\<close>

definition distanceTo :: "vec3 \<Rightarrow> vec3 \<Rightarrow> real" where
  "distanceTo a b =
     (let dx = vx a - vx b; dy = vy a - vy b; dz = vz a - vz b
      in sqrt (dx * dx + dy * dy + dz * dz))"

text \<open>
  Three.js objects (meshes, the line) have identity; a handle stands for one object and
  \<open>nextObject\<close> in the state is the next unused handle. The scene is the list of its
  children: \<open>scene.add\<close> detaches the object from its parent and pushes it,
  \<open>scene.remove\<close> deletes it where it occurs.
\<close>

type_synonym handle = nat

definition scene_add :: "handle \<Rightarrow> handle list \<Rightarrow> handle list" where
  "scene_add h sc = remove1 h sc @ [h]"

definition scene_remove :: "handle \<Rightarrow> handle list \<Rightarrow> handle list" where
  "scene_remove h sc = remove1 h sc"

record point =
  mesh :: handle
  vec :: vec3

subsection \<open>The state\<close>

record state =
  reticle_visible :: bool
  reticle_matrix :: matrix4
  hitTestSource :: bool
  hitTestSourceRequested :: bool
  points :: "point list"
  measurementLine :: "handle option"
  measureUnit :: string
  scene :: "handle list"
  nextObject :: handle
  actionBtn_innerText :: string
  actionBtn_disabled :: bool
  actionBtn_opacity :: string
  actionBtn_onclick :: bool
  instructionText :: string
  p1Label :: string
  p2Label :: string
  distLabel :: string
  introScreen_display :: string
  uiDiv_display :: string

text \<open>
  \<open>hitTestSource\<close> is \<open>True\<close> when the variable holds a source (is not \<open>null\<close>);
  \<open>actionBtn_onclick\<close> is \<open>True\<close> once \<open>actionBtn.onclick\<close> has been assigned.
\<close>

subsection \<open>Distance display\<close>

definition formatCoord :: "(real \<Rightarrow> string) \<Rightarrow> vec3 \<Rightarrow> string" where
  "formatCoord nts v =
     ''('' @ toFixed2 nts (vx v) @ '', '' @ toFixed2 nts (vy v) @ '', '' @ toFixed2 nts (vz v) @ '')''"

text \<open>The \<open>switch (measureUnit)\<close> of \<open>calculateDistance\<close>, starting from \<open>displayValue = 0\<close>.\<close>

definition displayValue :: "string \<Rightarrow> real \<Rightarrow> real" where
  "displayValue unit distanceMeters =
     (if unit = ''m'' then distanceMeters
      else if unit = ''cm'' then distanceMeters * 100
      else if unit = ''in'' then distanceMeters * 39.3701
      else if unit = ''ft'' then distanceMeters * 3.28084
      else 0)"

definition calculateDistance :: "(real \<Rightarrow> string) \<Rightarrow> state \<Rightarrow> state" where
  "calculateDistance nts s =
     (if length (points s) < 2 then s\<lparr>distLabel := ''0.00''\<rparr>
      else let distanceMeters = distanceTo (vec (points s ! 0)) (vec (points s ! 1))
           in s\<lparr>distLabel := toFixed2 nts (displayValue (measureUnit s) distanceMeters)\<rparr>)"

definition drawLine :: "state \<Rightarrow> state" where
  "drawLine s =
     (if length (points s) < 2 then s
      else let l = nextObject s
           in s\<lparr>nextObject := Suc l, measurementLine := Some l, scene := scene_add l (scene s)\<rparr>)"

subsection \<open>Capture\<close>

definition updateUIState :: "(real \<Rightarrow> string) \<Rightarrow> state \<Rightarrow> state" where
  "updateUIState nts s =
     (if length (points s) = 1 then
        s\<lparr>actionBtn_innerText := ''Set Point 2'',
          instructionText := ''Move camera to target. Tap 'Set Point 2'.'',
          p1Label := formatCoord nts (vec (points s ! 0)),
          actionBtn_onclick := True\<rparr>
      else if length (points s) = 2 then
        calculateDistance nts (drawLine
          (s\<lparr>actionBtn_innerText := ''Complete'',
             actionBtn_disabled := True,
             actionBtn_opacity := ''0.5'',
             instructionText := ''Measurement Complete.'',
             p2Label := formatCoord nts (vec (points s ! 1))\<rparr>))
      else s)"

definition onSelect :: "(real \<Rightarrow> string) \<Rightarrow> state \<Rightarrow> state" where
  "onSelect nts s =
     (if reticle_visible s then
        if 2 \<le> length (points s) then s
        else let m = nextObject s;
                 position = setFromMatrixPosition (reticle_matrix s)
             in updateUIState nts
                  (s\<lparr>nextObject := Suc m,
                     scene := scene_add m (scene s),
                     points := points s @ [\<lparr>mesh = m, vec = position\<rparr>]\<rparr>)
      else s)"

subsection \<open>Reset, unit change, session end\<close>

definition resetMeasurement :: "state \<Rightarrow> state" where
  "resetMeasurement s =
     (let sc = foldl (\<lambda>sc p. scene_remove (mesh p) sc) (scene s) (points s);
          sc' = (case measurementLine s of None \<Rightarrow> sc | Some l \<Rightarrow> scene_remove l sc)
      in s\<lparr>scene := sc',
           points := [],
           measurementLine := None,
           actionBtn_innerText := ''Set Point 1'',
           actionBtn_disabled := False,
           actionBtn_opacity := ''1'',
           instructionText := ''Aim at a surface and tap Set Point 1.'',
           p1Label := ''---'',
           p2Label := ''---'',
           distLabel := ''0.00''\<rparr>)"

definition unitChange :: "(real \<Rightarrow> string) \<Rightarrow> string \<Rightarrow> state \<Rightarrow> state" where
  "unitChange nts u s = calculateDistance nts (s\<lparr>measureUnit := u\<rparr>)"

text \<open>The listener that \<open>render\<close> attaches to the session's \<open>end\<close> event.\<close>

definition sessionEnd :: "state \<Rightarrow> state" where
  "sessionEnd s =
     s\<lparr>hitTestSourceRequested := False,
       hitTestSource := False,
       introScreen_display := ''flex'',
       uiDiv_display := ''none''\<rparr>"

definition startClick :: "state \<Rightarrow> state" where
  "startClick s = s\<lparr>introScreen_display := ''none'', uiDiv_display := ''block''\<rparr>"

subsection \<open>The render loop\<close>

text \<open>
  \<open>render(timestamp, frame)\<close>: the frame is absent outside a session. A frame is given by
  the list of transforms that \<open>frame.getHitTestResults\<close> holds for it, one per
  intersection; the list is read only when a hit-test source is held.
\<close>

definition render :: "state \<Rightarrow> matrix4 list option \<Rightarrow> state" where
  "render s frame =
     (case frame of
        None \<Rightarrow> s
      | Some hitTestResults \<Rightarrow>
          let s1 = (if \<not> hitTestSourceRequested s then s\<lparr>hitTestSourceRequested := True\<rparr> else s)
          in if hitTestSource s1 then
               (case hitTestResults of
                  hit # _ \<Rightarrow>
                    if length (points s1) < 2 then
                      s1\<lparr>reticle_visible := True,
                         reticle_matrix := hit,
                         instructionText :=
                           (if length (points s1) = 0 then ''Surface detected. Tap 'Set Point 1'.''
                            else instructionText s1)\<rparr>
                    else s1\<lparr>reticle_visible := False\<rparr>
                | [] \<Rightarrow>
                    s1\<lparr>reticle_visible := False,
                       instructionText :=
                         (if length (points s1) < 2 then ''Aim at floor/wall to detect surface.''
                          else instructionText s1)\<rparr>)
             else s1)"

subsection \<open>Events\<close>

text \<open>
  What reaches the script from outside: an animation frame, the controller's \<open>select\<close>
  gesture, clicks on the action, reset and start buttons, a change of the unit selector,
  the resolution of the hit-test source request, and the end of the session.

  A click on the action button is not delivered while the button is disabled. Otherwise
  it runs the listener registered with \<open>addEventListener\<close> and then, when
  \<open>actionBtn.onclick\<close> was assigned before the click, that handler as well; both call
  \<open>onSelect\<close>.

  The \<open>end\<close> listener exists on the running session exactly when
  \<open>hitTestSourceRequested\<close> is set: \<open>render\<close> attaches it together with setting the flag,
  and the listener clears the flag.
\<close>

datatype event =
    Frame "matrix4 list option"
  | Select
  | ActionClick
  | ResetClick
  | StartClick
  | UnitChange string
  | HitTestSourceResolved
  | SessionEnd

definition actionClick :: "(real \<Rightarrow> string) \<Rightarrow> state \<Rightarrow> state" where
  "actionClick nts s =
     (if actionBtn_disabled s then s
      else let s1 = onSelect nts s
           in if actionBtn_onclick s then onSelect nts s1 else s1)"

fun step :: "(real \<Rightarrow> string) \<Rightarrow> state \<Rightarrow> event \<Rightarrow> state" where
  "step nts s (Frame frame) = render s frame"
| "step nts s Select = onSelect nts s"
| "step nts s ActionClick = actionClick nts s"
| "step nts s ResetClick = resetMeasurement s"
| "step nts s StartClick = startClick s"
| "step nts s (UnitChange u) = unitChange nts u s"
| "step nts s HitTestSourceResolved = s\<lparr>hitTestSource := True\<rparr>"
| "step nts s SessionEnd = (if hitTestSourceRequested s then sessionEnd s else s)"

definition run :: "(real \<Rightarrow> string) \<Rightarrow> state \<Rightarrow> event list \<Rightarrow> state" where
  "run nts s es = foldl (step nts) s es"

text \<open>
  The state after \<open>init()\<close>: the scene holds the light (0), the controller (1) and the
  hidden reticle (2). The page's markup is not part of the source; the labels start as
  \<open>resetMeasurement\<close> restores them and the overlay starts hidden behind the intro screen.
\<close>

definition init :: state where
  "init =
     \<lparr>reticle_visible = False,
      reticle_matrix = [1, 0, 0, 0, 0, 1, 0, 0, 0, 0, 1, 0, 0, 0, 0, 1],
      hitTestSource = False,
      hitTestSourceRequested = False,
      points = [],
      measurementLine = None,
      measureUnit = ''m'',
      scene = [0, 1, 2],
      nextObject = 3,
      actionBtn_innerText = ''Set Point 1'',
      actionBtn_disabled = False,
      actionBtn_opacity = ''1'',
      actionBtn_onclick = False,
      instructionText = ''Aim at a surface and tap Set Point 1.'',
      p1Label = ''---'',
      p2Label = ''---'',
      distLabel = ''0.00'',
      introScreen_display = ''flex'',
      uiDiv_display = ''none''\<rparr>"

subsection \<open>Session phase\<close>

text \<open>
  The script stores no phase. The specification (section 4.4) derives one from the
  number of captured points and the reticle's visibility; \<open>spec_phase\<close> follows that
  table.
\<close>

datatype SessionPhase = AWAITING_SURFACE | AIMING_P1 | POINT1_SET | AIMING_P2 | COMPLETE

definition spec_phase :: "state \<Rightarrow> SessionPhase" where
  "spec_phase s =
     (if length (points s) = 0 then (if reticle_visible s then AIMING_P1 else AWAITING_SURFACE)
      else if length (points s) = 1 then (if reticle_visible s then AIMING_P2 else POINT1_SET)
      else COMPLETE)"

subsection \<open>Example inputs\<close>

text \<open>
  A pose without rotation at a given position, a number-to-string conversion for the
  examples (none of them formats a number as large as \<open>10^21\<close>), and two event
  sequences: one that captures two points a meter apart, one that captures two points
  five meters apart, and one that ends the session while the reticle is showing and starts
  the next one.
\<close>

definition pose_at :: "real \<Rightarrow> real \<Rightarrow> real \<Rightarrow> matrix4" where
  "pose_at px py pz = [1, 0, 0, 0, 0, 1, 0, 0, 0, 0, 1, 0, px, py, pz, 1]"

definition exponent_free :: "real \<Rightarrow> string" where
  "exponent_free v = digits (nat \<lfloor>v\<rfloor>)"

definition measure_one_meter :: "event list" where
  "measure_one_meter =
     [StartClick, Frame (Some []), HitTestSourceResolved,
      Frame (Some [pose_at 0 0 0]), Select,
      Frame (Some [pose_at 1 0 0]), Select]"

definition measure_five_meters :: "event list" where
  "measure_five_meters =
     [StartClick, Frame (Some []), HitTestSourceResolved,
      Frame (Some [pose_at 1 2 3]), Select,
      Frame (Some [pose_at 4 6 3]), Select]"

definition restart_while_aiming :: "event list" where
  "restart_while_aiming =
     [StartClick, Frame (Some []), HitTestSourceResolved, Frame (Some [pose_at 0 0 0]),
      SessionEnd, StartClick]"

section \<open>Properties\<close>

subsection \<open>What each handler leaves alone\<close>

lemma points_calculateDistance [simp]: "points (calculateDistance nts s) = points s"
  by (simp add: calculateDistance_def Let_def)

lemma points_drawLine [simp]: "points (drawLine s) = points s"
  by (simp add: drawLine_def Let_def)

lemma points_updateUIState [simp]: "points (updateUIState nts s) = points s"
  by (simp add: updateUIState_def)

lemma points_render [simp]: "points (render s frame) = points s"
  by (simp add: render_def Let_def split: option.split list.split)

lemma points_sessionEnd [simp]: "points (sessionEnd s) = points s"
  by (simp add: sessionEnd_def)

lemma points_unitChange [simp]: "points (unitChange nts u s) = points s"
  by (simp add: unitChange_def)

lemma points_startClick [simp]: "points (startClick s) = points s"
  by (simp add: startClick_def)

lemma reticle_visible_calculateDistance [simp]:
  "reticle_visible (calculateDistance nts s) = reticle_visible s"
  by (simp add: calculateDistance_def Let_def)

lemma reticle_visible_drawLine [simp]: "reticle_visible (drawLine s) = reticle_visible s"
  by (simp add: drawLine_def Let_def)

lemma reticle_visible_updateUIState [simp]:
  "reticle_visible (updateUIState nts s) = reticle_visible s"
  by (simp add: updateUIState_def)

lemma reticle_visible_onSelect [simp]: "reticle_visible (onSelect nts s) = reticle_visible s"
  by (simp add: onSelect_def Let_def)

subsection \<open>Unfolding the handlers on concrete states\<close>

lemmas handler_defs =
  render_def onSelect_def actionClick_def updateUIState_def calculateDistance_def drawLine_def
  resetMeasurement_def unitChange_def sessionEnd_def startClick_def
  scene_add_def scene_remove_def setFromMatrixPosition_def distanceTo_def displayValue_def
  formatCoord_def toFixed2_def digits.simps digit_def Let_def

lemma run_Nil [simp]: "run nts s [] = s"
  by (simp add: run_def)

lemma run_Cons [simp]: "run nts s (e # es) = run nts (step nts s e) es"
  by (simp add: run_def)

lemma run_append: "run nts s (es @ es') = run nts (run nts s es) es'"
  by (simp add: run_def)

lemmas example_defs =
  init_def pose_at_def measure_one_meter_def measure_five_meters_def restart_while_aiming_def

lemma measured_two_points: "length (points (run exponent_free init measure_one_meter)) = 2"
  by (simp add: handler_defs example_defs)

subsection \<open>Capture\<close>

lemma onSelect_ignored: "\<not> reticle_visible s \<or> 2 \<le> length (points s) \<Longrightarrow> onSelect nts s = s"
  by (auto simp: onSelect_def)

lemma actionClick_ignored:
  "\<not> reticle_visible s \<or> 2 \<le> length (points s) \<Longrightarrow> actionClick nts s = s"
  by (simp add: actionClick_def Let_def onSelect_ignored)

lemma points_onSelect:
  "points (onSelect nts s) =
     (if reticle_visible s \<and> length (points s) < 2
      then points s @ [\<lparr>mesh = nextObject s, vec = setFromMatrixPosition (reticle_matrix s)\<rparr>]
      else points s)"
  by (simp add: onSelect_def Let_def)

lemma points_actionClick:
  "length (points s) \<le> 2 \<Longrightarrow>
     length (points (actionClick nts s)) \<le> 2 \<and>
     (\<exists>ps. points (actionClick nts s) = points s @ ps)"
  by (auto simp: actionClick_def Let_def points_onSelect)

lemma step_points:
  assumes "length (points s) \<le> 2" and "e \<noteq> ResetClick"
  shows "length (points (step nts s e)) \<le> 2 \<and> (\<exists>ps. points (step nts s e) = points s @ ps)"
proof (cases e)
  case ActionClick
  then show ?thesis using points_actionClick [OF assms(1)] by simp
next
  case Select
  then show ?thesis using assms(1) by (simp add: points_onSelect)
qed (use assms in simp_all)

lemma run_points:
  "length (points s) \<le> 2 \<Longrightarrow> ResetClick \<notin> set es \<Longrightarrow>
     length (points (run nts s es)) \<le> 2 \<and> (\<exists>ps. points (run nts s es) = points s @ ps)"
proof (induction es arbitrary: s)
  case Nil
  then show ?case by simp
next
  case (Cons e es)
  from Cons.prems have ne: "e \<noteq> ResetClick" and rest: "ResetClick \<notin> set es"
    by auto
  from step_points [OF Cons.prems(1) ne]
  obtain ps where le: "length (points (step nts s e)) \<le> 2"
    and ps: "points (step nts s e) = points s @ ps"
    by blast
  from Cons.IH [OF le rest]
  obtain qs where le': "length (points (run nts (step nts s e) es)) \<le> 2"
    and qs: "points (run nts (step nts s e) es) = points (step nts s e) @ qs"
    by blast
  show ?case using le' ps qs by simp
qed

text \<open>
  C2. Along every sequence of events without a reset click, started with at most two
  captured points, the number of points stays in \<open>{0, 1, 2}\<close> and never decreases; once it
  is 2 the points stay as they are and a further \<open>onSelect\<close> changes nothing.
\<close>

theorem C2_length_bounded_monotone:
  assumes "length (points s) \<le> 2" and "ResetClick \<notin> set (es @ es')"
  shows "length (points (run nts s (es @ es'))) \<in> {0, 1, 2} \<and>
         length (points (run nts s es)) \<le> length (points (run nts s (es @ es'))) \<and>
         (length (points (run nts s es)) = 2 \<longrightarrow>
            points (run nts s (es @ es')) = points (run nts s es) \<and>
            onSelect nts (run nts s es) = run nts s es)"
proof -
  let ?t = "run nts s es"
  from assms have r1: "ResetClick \<notin> set es" and r2: "ResetClick \<notin> set es'"
    by auto
  from run_points [OF assms(1) r1] have t2: "length (points ?t) \<le> 2"
    by blast
  from run_points [OF t2 r2]
  obtain ps where u2: "length (points (run nts ?t es')) \<le> 2"
    and ps: "points (run nts ?t es') = points ?t @ ps"
    by blast
  have "length (points (run nts ?t es')) = 0 \<or> length (points (run nts ?t es')) = 1
      \<or> length (points (run nts ?t es')) = 2"
    using u2 by arith
  then have "length (points (run nts ?t es')) \<in> {0, 1, 2}"
    by simp
  moreover have "length (points ?t) \<le> length (points (run nts ?t es'))"
    using ps by simp
  moreover have "points (run nts ?t es') = points ?t" if "length (points ?t) = 2"
    using that u2 ps by simp
  moreover have "onSelect nts ?t = ?t" if "length (points ?t) = 2"
    using that by (simp add: onSelect_ignored)
  ultimately show ?thesis
    by (simp add: run_append)
qed

theorem C2_witness:
  "length (points init) \<le> 2 \<and>
   ResetClick \<notin> set (measure_one_meter @ [Select, ActionClick]) \<and>
   length (points (run exponent_free init measure_one_meter)) = 2 \<and>
   length (points (run exponent_free init (measure_one_meter @ [Select, ActionClick]))) \<in> {0, 1, 2} \<and>
   points (run exponent_free init (measure_one_meter @ [Select, ActionClick])) =
     points (run exponent_free init measure_one_meter)"
proof -
  have h1: "length (points init) \<le> 2"
    by (simp add: init_def)
  have h2: "ResetClick \<notin> set (measure_one_meter @ [Select, ActionClick])"
    by (simp add: measure_one_meter_def)
  from C2_length_bounded_monotone [OF h1 h2, of exponent_free] measured_two_points h1 h2
  show ?thesis by simp
qed

text \<open>
  C4. A tap or a click on the action button while the reticle is hidden, or while two
  points are held, leaves the whole state as it was, however often it is repeated.
\<close>

theorem C4_userAction_ignored:
  assumes "\<not> reticle_visible s \<or> length (points s) = 2"
    and "set es \<subseteq> {Select, ActionClick}"
  shows "run nts s es = s"
  using assms(2)
proof (induction es)
  case Nil
  show ?case by simp
next
  case (Cons e es)
  from assms(1) have ign: "\<not> reticle_visible s \<or> 2 \<le> length (points s)"
    by auto
  from Cons.prems have "e = Select \<or> e = ActionClick"
    by simp
  then have "step nts s e = s"
    using ign by (auto simp: onSelect_ignored actionClick_ignored)
  with Cons show ?case by simp
qed

theorem C4_witness:
  "\<not> reticle_visible init \<and>
   run exponent_free init [Select, ActionClick, Select] = init \<and>
   length (points (run exponent_free init measure_one_meter)) = 2 \<and>
   run exponent_free (run exponent_free init measure_one_meter) [ActionClick, Select] =
     run exponent_free init measure_one_meter"
proof -
  have h1: "\<not> reticle_visible init \<or> length (points init) = 2"
    by (simp add: init_def)
  have h2: "\<not> reticle_visible (run exponent_free init measure_one_meter)
      \<or> length (points (run exponent_free init measure_one_meter)) = 2"
    using measured_two_points by simp
  have "run exponent_free init [Select, ActionClick, Select] = init"
    by (rule C4_userAction_ignored [OF h1]) simp
  moreover have "run exponent_free (run exponent_free init measure_one_meter) [ActionClick, Select] =
     run exponent_free init measure_one_meter"
    by (rule C4_userAction_ignored [OF h2]) simp
  moreover have "\<not> reticle_visible init"
    by (simp add: init_def)
  ultimately show ?thesis using measured_two_points by simp
qed

subsection \<open>Formatting and distance\<close>

lemma digit_mem: "d < 10 \<Longrightarrow> digit d \<in> set ''0123456789''"
  unfolding digit_def by (rule nth_mem) simp

lemma digits_mem: "set (digits n) \<subseteq> set ''0123456789''"
proof (induction n rule: digits.induct)
  case (1 n)
  show ?case
  proof (cases "n < 10")
    case True
    then show ?thesis
      using digit_mem [of n] by (subst digits.simps) simp
  next
    case False
    have "n mod 10 < 10" by simp
    then have "digit (n mod 10) \<in> set ''0123456789''"
      by (rule digit_mem)
    with False "1.IH" show ?thesis
      by (subst digits.simps) simp
  qed
qed

lemma digits_not_Nil: "digits n \<noteq> []"
  by (subst digits.simps) simp

lemma toFixed2_zero: "toFixed2 nts 0 = ''0.00''"
  by (simp add: toFixed2_def digits.simps digit_def)

lemma digit_value_digit: "d < 10 \<Longrightarrow> digit_value (digit d) = d"
proof -
  assume "d < 10"
  then consider "d = 0" | "d = 1" | "d = 2" | "d = 3" | "d = 4" | "d = 5" | "d = 6" | "d = 7"
    | "d = 8" | "d = 9"
    by atomize_elim arith
  then show ?thesis
    by cases (simp_all add: digit_value_def digit_def)
qed

lemma decimal_snoc: "decimal (cs @ [c]) = 10 * decimal cs + digit_value c"
  by (simp add: decimal_def)

lemma decimal_digits: "decimal (digits n) = n"
proof (induction n rule: digits.induct)
  case (1 n)
  show ?case
  proof (cases "n < 10")
    case True
    then show ?thesis
      by (subst digits.simps) (simp add: decimal_def digit_value_digit)
  next
    case False
    have "digit_value (digit (n mod 10)) = n mod 10"
      by (rule digit_value_digit) simp
    with False "1.IH" show ?thesis
      by (subst digits.simps) (simp add: decimal_snoc)
  qed
qed

lemma hundreds_tens_units:
  "100 * (n div 100) + (10 * (n div 10 mod 10) + n mod 10) = (n::nat)"
proof -
  have a: "n = 10 * (n div 10) + n mod 10"
    by simp
  have b: "n div 10 = 10 * (n div 10 div 10) + n div 10 mod 10"
    by simp
  have c: "n div 10 div 10 = n div 100"
    by (simp add: div_mult2_eq [symmetric])
  from a b c show ?thesis
    by arith
qed

lemma decimal_two: "a < 10 \<Longrightarrow> b < 10 \<Longrightarrow> decimal [digit a, digit b] = 10 * a + b"
  by (simp add: decimal_def digit_value_digit)

lemma toFixed2_value:
  assumes "0 \<le> v" and "v < 10 ^ 21"
  shows "\<exists>ip d1 d2. toFixed2 nts v = ip @ ''.'' @ [d1, d2] \<and> ip \<noteq> [] \<and>
           set (ip @ [d1, d2]) \<subseteq> set ''0123456789'' \<and>
           \<bar>real (decimal ip) + real (decimal [d1, d2]) / 100 - v\<bar> \<le> 1 / 200"
proof -
  define n where "n = nat \<lfloor>v * 100 + 1 / 2\<rfloor>"
  let ?ip = "digits (n div 100)"
  let ?d1 = "digit (n div 10 mod 10)"
  let ?d2 = "digit (n mod 10)"
  have eq: "toFixed2 nts v = ?ip @ ''.'' @ [?d1, ?d2]"
    using assms by (simp add: toFixed2_def n_def Let_def)
  have "?d1 \<in> set ''0123456789''"
    by (rule digit_mem) simp
  moreover have "?d2 \<in> set ''0123456789''"
    by (rule digit_mem) simp
  ultimately have mem: "set (?ip @ [?d1, ?d2]) \<subseteq> set ''0123456789''"
    using digits_mem [of "n div 100"] by simp
  have frac: "decimal [?d1, ?d2] = 10 * (n div 10 mod 10) + n mod 10"
    by (rule decimal_two) simp_all
  have "100 * decimal ?ip + decimal [?d1, ?d2] = n"
    unfolding decimal_digits frac by (rule hundreds_tens_units)
  then have "real (100 * decimal ?ip + decimal [?d1, ?d2]) = real n"
    by (rule arg_cong)
  then have val: "100 * real (decimal ?ip) + real (decimal [?d1, ?d2]) = real n"
    by simp
  have nonneg: "0 \<le> \<lfloor>v * 100 + 1 / 2\<rfloor>"
    using assms(1) by simp
  then have "real n = of_int \<lfloor>v * 100 + 1 / 2\<rfloor>"
    by (simp add: n_def)
  then have "real n \<le> v * 100 + 1 / 2" and "v * 100 + 1 / 2 < real n + 1"
    by linarith+
  with val have "\<bar>real (decimal ?ip) + real (decimal [?d1, ?d2]) / 100 - v\<bar> \<le> 1 / 200"
    by linarith
  with eq mem digits_not_Nil [of "n div 100"] show ?thesis
    by blast
qed

lemma distanceTo_euclidean:
  "distanceTo p q = sqrt ((vx p - vx q)\<^sup>2 + (vy p - vy q)\<^sup>2 + (vz p - vz q)\<^sup>2)"
  by (simp add: distanceTo_def Let_def power2_eq_square)

lemma distanceTo_sym: "distanceTo p q = distanceTo q p"
  by (simp add: distanceTo_euclidean power2_commute)

lemma distLabel_calculateDistance:
  "distLabel (calculateDistance nts s) =
     (if length (points s) < 2 then ''0.00''
      else toFixed2 nts (displayValue (measureUnit s)
             (distanceTo (vec (points s ! 0)) (vec (points s ! 1)))))"
  by (simp add: calculateDistance_def Let_def)

lemma calculateDistance_only_label:
  "calculateDistance nts s = s\<lparr>distLabel := distLabel (calculateDistance nts s)\<rparr>"
  by (simp add: calculateDistance_def Let_def)

text \<open>
  C5. \<open>calculateDistance\<close> shows \<open>0.00\<close> while fewer than two points are held. With
  exactly two points it shows \<open>toFixed(2)\<close> of the Euclidean distance between the two
  stored positions, multiplied by 1 for unit \<open>m\<close>, by 100 for \<open>cm\<close>, by 39.3701 for \<open>in\<close>
  and by 3.28084 for \<open>ft\<close>. Below \<open>10^21\<close> that text is a non-empty run of digits, a
  point and two digits, and the number it denotes is within half a hundredth of the
  converted distance. Nothing but the distance label changes.
\<close>

theorem C5_compute:
  "(length (points s) < 2 \<longrightarrow> distLabel (calculateDistance nts s) = ''0.00'') \<and>
   (points s = [a, b] \<longrightarrow>
      distLabel (calculateDistance nts s) =
        toFixed2 nts (displayValue (measureUnit s) (distanceTo (vec a) (vec b))) \<and>
      distanceTo (vec a) (vec b) =
        sqrt ((vx (vec a) - vx (vec b))\<^sup>2 + (vy (vec a) - vy (vec b))\<^sup>2
              + (vz (vec a) - vz (vec b))\<^sup>2) \<and>
      (measureUnit s = ''m'' \<longrightarrow>
         distLabel (calculateDistance nts s) = toFixed2 nts (distanceTo (vec a) (vec b))) \<and>
      (measureUnit s = ''cm'' \<longrightarrow>
         distLabel (calculateDistance nts s) = toFixed2 nts (distanceTo (vec a) (vec b) * 100)) \<and>
      (measureUnit s = ''in'' \<longrightarrow>
         distLabel (calculateDistance nts s) = toFixed2 nts (distanceTo (vec a) (vec b) * 39.3701)) \<and>
      (measureUnit s = ''ft'' \<longrightarrow>
         distLabel (calculateDistance nts s) = toFixed2 nts (distanceTo (vec a) (vec b) * 3.28084)) \<and>
      (displayValue (measureUnit s) (distanceTo (vec a) (vec b)) < 10 ^ 21 \<longrightarrow>
         (\<exists>ip d1 d2. distLabel (calculateDistance nts s) = ip @ ''.'' @ [d1, d2] \<and> ip \<noteq> [] \<and>
            set (ip @ [d1, d2]) \<subseteq> set ''0123456789'' \<and>
            \<bar>real (decimal ip) + real (decimal [d1, d2]) / 100
               - displayValue (measureUnit s) (distanceTo (vec a) (vec b))\<bar> \<le> 1 / 200))) \<and>
   calculateDistance nts s = s\<lparr>distLabel := distLabel (calculateDistance nts s)\<rparr>"
proof (intro conjI impI)
  assume "length (points s) < 2"
  then show "distLabel (calculateDistance nts s) = ''0.00''"
    by (simp add: distLabel_calculateDistance)
next
  assume ab: "points s = [a, b]"
  then show lab: "distLabel (calculateDistance nts s) =
      toFixed2 nts (displayValue (measureUnit s) (distanceTo (vec a) (vec b)))"
    by (simp add: distLabel_calculateDistance)
  show "distanceTo (vec a) (vec b) =
      sqrt ((vx (vec a) - vx (vec b))\<^sup>2 + (vy (vec a) - vy (vec b))\<^sup>2
            + (vz (vec a) - vz (vec b))\<^sup>2)"
    by (rule distanceTo_euclidean)
  {
    assume "measureUnit s = ''m''"
    with lab show "distLabel (calculateDistance nts s) = toFixed2 nts (distanceTo (vec a) (vec b))"
      by (simp add: displayValue_def)
  }
  {
    assume "measureUnit s = ''cm''"
    with lab show "distLabel (calculateDistance nts s) =
        toFixed2 nts (distanceTo (vec a) (vec b) * 100)"
      by (simp add: displayValue_def)
  }
  {
    assume "measureUnit s = ''in''"
    with lab show "distLabel (calculateDistance nts s) =
        toFixed2 nts (distanceTo (vec a) (vec b) * 39.3701)"
      by (simp add: displayValue_def)
  }
  {
    assume "measureUnit s = ''ft''"
    with lab show "distLabel (calculateDistance nts s) =
        toFixed2 nts (distanceTo (vec a) (vec b) * 3.28084)"
      by (simp add: displayValue_def)
  }
  assume small: "displayValue (measureUnit s) (distanceTo (vec a) (vec b)) < 10 ^ 21"
  have "0 \<le> distanceTo (vec a) (vec b)"
    by (simp add: distanceTo_euclidean)
  then have "0 \<le> displayValue (measureUnit s) (distanceTo (vec a) (vec b))"
    by (simp add: displayValue_def)
  from toFixed2_value [OF this small, of nts] lab
  show "\<exists>ip d1 d2. distLabel (calculateDistance nts s) = ip @ ''.'' @ [d1, d2] \<and> ip \<noteq> [] \<and>
      set (ip @ [d1, d2]) \<subseteq> set ''0123456789'' \<and>
      \<bar>real (decimal ip) + real (decimal [d1, d2]) / 100
         - displayValue (measureUnit s) (distanceTo (vec a) (vec b))\<bar> \<le> 1 / 200"
    by simp
next
  show "calculateDistance nts s = s\<lparr>distLabel := distLabel (calculateDistance nts s)\<rparr>"
    by (rule calculateDistance_only_label)
qed

lemma measured_points:
  "points (run exponent_free init measure_one_meter) =
     [\<lparr>mesh = 3, vec = \<lparr>vx = 0, vy = 0, vz = 0\<rparr>\<rparr>, \<lparr>mesh = 4, vec = \<lparr>vx = 1, vy = 0, vz = 0\<rparr>\<rparr>]"
  by (simp add: handler_defs example_defs)

lemma five_meter_points:
  "points (run exponent_free init measure_five_meters) =
     [\<lparr>mesh = 3, vec = \<lparr>vx = 1, vy = 2, vz = 3\<rparr>\<rparr>, \<lparr>mesh = 4, vec = \<lparr>vx = 4, vy = 6, vz = 3\<rparr>\<rparr>]"
  by (simp add: handler_defs example_defs)

lemma measureUnit_unitChange: "measureUnit (unitChange nts u s) = u"
  by (simp add: unitChange_def calculateDistance_def Let_def)

lemma sqrt_25: "sqrt 25 = 5"
  by (rule real_sqrt_unique) simp_all

theorem C5_witness:
  "length (points init) < 2 \<and>
   distLabel (calculateDistance exponent_free init) = ''0.00'' \<and>
   points (run exponent_free init measure_five_meters) =
     [\<lparr>mesh = 3, vec = \<lparr>vx = 1, vy = 2, vz = 3\<rparr>\<rparr>, \<lparr>mesh = 4, vec = \<lparr>vx = 4, vy = 6, vz = 3\<rparr>\<rparr>] \<and>
   distLabel (calculateDistance exponent_free
     (step exponent_free (run exponent_free init measure_five_meters) (UnitChange ''m''))) = ''5.00'' \<and>
   distLabel (calculateDistance exponent_free
     (step exponent_free (run exponent_free init measure_five_meters) (UnitChange ''cm''))) = ''500.00'' \<and>
   distLabel (calculateDistance exponent_free
     (step exponent_free (run exponent_free init measure_five_meters) (UnitChange ''in''))) = ''196.85'' \<and>
   distLabel (calculateDistance exponent_free
     (step exponent_free (run exponent_free init measure_five_meters) (UnitChange ''ft''))) = ''16.40''"
proof -
  let ?a = "\<lparr>mesh = 3, vec = \<lparr>vx = 1, vy = 2, vz = 3\<rparr>\<rparr>"
  let ?b = "\<lparr>mesh = 4, vec = \<lparr>vx = 4, vy = 6, vz = 3\<rparr>\<rparr>"
  let ?s = "\<lambda>u. step exponent_free (run exponent_free init measure_five_meters) (UnitChange u)"
  have small: "length (points init) < 2"
    by (simp add: init_def)
  have pts: "points (?s u) = [?a, ?b]" for u
    by (simp add: five_meter_points)
  have unit: "measureUnit (?s u) = u" for u
    by (simp add: measureUnit_unitChange)
  have five: "distanceTo (vec ?a) (vec ?b) = 5"
    by (simp add: distanceTo_def sqrt_25)
  have texts: "toFixed2 exponent_free 5 = ''5.00''"
    "toFixed2 exponent_free (5 * 100) = ''500.00''"
    "toFixed2 exponent_free (5 * 39.3701) = ''196.85''"
    "toFixed2 exponent_free (5 * 3.28084) = ''16.40''"
    by (simp_all add: toFixed2_def digits.simps digit_def)
  note th = C5_compute [where nts = exponent_free and a = ?a and b = ?b]
  have zero: "distLabel (calculateDistance exponent_free init) = ''0.00''"
    using th [where s = init] small by blast
  have "distLabel (calculateDistance exponent_free (?s ''m'')) =
      toFixed2 exponent_free (distanceTo (vec ?a) (vec ?b))"
    using th [where s = "?s ''m''"] pts [of "''m''"] unit [of "''m''"] by blast
  then have m: "distLabel (calculateDistance exponent_free (?s ''m'')) = ''5.00''"
    by (simp only: five texts)
  have "distLabel (calculateDistance exponent_free (?s ''cm'')) =
      toFixed2 exponent_free (distanceTo (vec ?a) (vec ?b) * 100)"
    using th [where s = "?s ''cm''"] pts [of "''cm''"] unit [of "''cm''"] by blast
  then have cm: "distLabel (calculateDistance exponent_free (?s ''cm'')) = ''500.00''"
    by (simp only: five texts)
  have "distLabel (calculateDistance exponent_free (?s ''in'')) =
      toFixed2 exponent_free (distanceTo (vec ?a) (vec ?b) * 39.3701)"
    using th [where s = "?s ''in''"] pts [of "''in''"] unit [of "''in''"] by blast
  then have inch: "distLabel (calculateDistance exponent_free (?s ''in'')) = ''196.85''"
    by (simp only: five texts)
  have "distLabel (calculateDistance exponent_free (?s ''ft'')) =
      toFixed2 exponent_free (distanceTo (vec ?a) (vec ?b) * 3.28084)"
    using th [where s = "?s ''ft''"] pts [of "''ft''"] unit [of "''ft''"] by blast
  then have ft: "distLabel (calculateDistance exponent_free (?s ''ft'')) = ''16.40''"
    by (simp only: five texts)
  show ?thesis
    by (intro conjI) (fact small zero five_meter_points m cm inch ft)+
qed

text \<open>
  C6. The unit switch multiplies the meters value by 1, 100, 39.3701 or 3.28084 for
  \<open>m\<close>, \<open>cm\<close>, \<open>in\<close>, \<open>ft\<close>; for points at (0,0,0) and (1,0,0) the label reads
  \<open>1.00\<close>, \<open>100.00\<close>, \<open>39.37\<close> and \<open>3.28\<close>.
\<close>

theorem C6_unit_factors:
  "displayValue ''m'' d = d * 1 \<and>
   displayValue ''cm'' d = d * 100 \<and>
   displayValue ''in'' d = d * 39.3701 \<and>
   displayValue ''ft'' d = d * 3.28084 \<and>
   distLabel (calculateDistance nts
     (s\<lparr>points := [\<lparr>mesh = h1, vec = \<lparr>vx = 0, vy = 0, vz = 0\<rparr>\<rparr>,
                   \<lparr>mesh = h2, vec = \<lparr>vx = 1, vy = 0, vz = 0\<rparr>\<rparr>],
        measureUnit := ''m''\<rparr>)) = ''1.00'' \<and>
   distLabel (calculateDistance nts
     (s\<lparr>points := [\<lparr>mesh = h1, vec = \<lparr>vx = 0, vy = 0, vz = 0\<rparr>\<rparr>,
                   \<lparr>mesh = h2, vec = \<lparr>vx = 1, vy = 0, vz = 0\<rparr>\<rparr>],
        measureUnit := ''cm''\<rparr>)) = ''100.00'' \<and>
   distLabel (calculateDistance nts
     (s\<lparr>points := [\<lparr>mesh = h1, vec = \<lparr>vx = 0, vy = 0, vz = 0\<rparr>\<rparr>,
                   \<lparr>mesh = h2, vec = \<lparr>vx = 1, vy = 0, vz = 0\<rparr>\<rparr>],
        measureUnit := ''in''\<rparr>)) = ''39.37'' \<and>
   distLabel (calculateDistance nts
     (s\<lparr>points := [\<lparr>mesh = h1, vec = \<lparr>vx = 0, vy = 0, vz = 0\<rparr>\<rparr>,
                   \<lparr>mesh = h2, vec = \<lparr>vx = 1, vy = 0, vz = 0\<rparr>\<rparr>],
        measureUnit := ''ft''\<rparr>)) = ''3.28''"
proof -
  have factors: "displayValue ''m'' d = d * 1" "displayValue ''cm'' d = d * 100"
    "displayValue ''in'' d = d * 39.3701" "displayValue ''ft'' d = d * 3.28084"
    by (simp_all add: displayValue_def)
  have one: "distanceTo \<lparr>vx = 0, vy = 0, vz = 0\<rparr> \<lparr>vx = 1, vy = 0, vz = 0\<rparr> = 1"
    by (simp add: distanceTo_def)
  have texts: "toFixed2 nts (displayValue ''m'' 1) = ''1.00''"
    "toFixed2 nts (displayValue ''cm'' 1) = ''100.00''"
    "toFixed2 nts (displayValue ''in'' 1) = ''39.37''"
    "toFixed2 nts (displayValue ''ft'' 1) = ''3.28''"
    by (simp_all add: displayValue_def toFixed2_def digits.simps digit_def)
  show ?thesis
    using factors by (simp add: distLabel_calculateDistance one texts)
qed

text \<open>
  C7. A change of the unit selector keeps the captured points, the scene and the line,
  stores the new unit and, with two points held, recomputes the label from those same two
  positions.
\<close>

theorem C7_unit_change:
  "points (step nts s (UnitChange u)) = points s \<and>
   scene (step nts s (UnitChange u)) = scene s \<and>
   measurementLine (step nts s (UnitChange u)) = measurementLine s \<and>
   measureUnit (step nts s (UnitChange u)) = u \<and>
   (points s = [a, b] \<longrightarrow>
      distLabel (step nts s (UnitChange u)) =
        toFixed2 nts (displayValue u (distanceTo (vec a) (vec b))))"
  by (simp add: unitChange_def calculateDistance_def Let_def)

theorem C7_witness:
  "points (run exponent_free init measure_one_meter) =
     [\<lparr>mesh = 3, vec = \<lparr>vx = 0, vy = 0, vz = 0\<rparr>\<rparr>, \<lparr>mesh = 4, vec = \<lparr>vx = 1, vy = 0, vz = 0\<rparr>\<rparr>] \<and>
   distLabel (run exponent_free init measure_one_meter) = ''1.00'' \<and>
   distLabel (step exponent_free (run exponent_free init measure_one_meter) (UnitChange ''cm''))
     = ''100.00'' \<and>
   points (step exponent_free (run exponent_free init measure_one_meter) (UnitChange ''cm'')) =
     points (run exponent_free init measure_one_meter)"
proof -
  have before: "distLabel (run exponent_free init measure_one_meter) = ''1.00''"
    by (simp add: handler_defs example_defs)
  have hundred: "toFixed2 exponent_free (displayValue ''cm''
      (distanceTo \<lparr>vx = 0, vy = 0, vz = 0\<rparr> \<lparr>vx = 1, vy = 0, vz = 0\<rparr>)) = ''100.00''"
    by (simp add: handler_defs)
  from C7_unit_change [where s = "run exponent_free init measure_one_meter" and nts = exponent_free
      and u = "''cm''" and a = "\<lparr>mesh = 3, vec = \<lparr>vx = 0, vy = 0, vz = 0\<rparr>\<rparr>"
      and b = "\<lparr>mesh = 4, vec = \<lparr>vx = 1, vy = 0, vz = 0\<rparr>\<rparr>"]
    measured_points before hundred
  show ?thesis by simp
qed

text \<open>
  C9. The distance does not depend on the order of the two positions, and neither does the
  label computed from them.
\<close>

theorem C9_distance_symmetric:
  "distanceTo a b = distanceTo b a \<and>
   distLabel (calculateDistance nts (s\<lparr>points := [p, q]\<rparr>)) =
     distLabel (calculateDistance nts (s\<lparr>points := [q, p]\<rparr>))"
  by (simp add: distLabel_calculateDistance distanceTo_sym [of "vec p" "vec q"] distanceTo_sym [of a b])

text \<open>
  C10. With a unit string other than \<open>m\<close>, \<open>cm\<close>, \<open>in\<close>, \<open>ft\<close> the switch matches no case,
  the display value stays 0 and the label reads \<open>0.00\<close>, whatever points are held.
\<close>

theorem C10_unknown_unit:
  assumes "measureUnit s \<notin> {''m'', ''cm'', ''in'', ''ft''}"
  shows "distLabel (calculateDistance nts s) = ''0.00'' \<and>
         displayValue (measureUnit s) d = 0"
  using assms by (simp add: distLabel_calculateDistance displayValue_def toFixed2_zero)

theorem C10_witness:
  "''yd'' \<notin> {''m'', ''cm'', ''in'', ''ft''} \<and>
   length (points (step exponent_free (run exponent_free init measure_one_meter) (UnitChange ''yd''))) = 2 \<and>
   distLabel (run exponent_free init measure_one_meter) = ''1.00'' \<and>
   distLabel (step exponent_free (run exponent_free init measure_one_meter) (UnitChange ''yd'')) = ''0.00''"
proof -
  let ?s = "run exponent_free init measure_one_meter"
  have before: "distLabel ?s = ''1.00''"
    by (simp add: handler_defs example_defs)
  have unit: "measureUnit (?s\<lparr>measureUnit := ''yd''\<rparr>) \<notin> {''m'', ''cm'', ''in'', ''ft''}"
    by simp
  from C10_unknown_unit [OF unit, where nts = exponent_free] before measured_two_points
  show ?thesis by (simp add: unitChange_def)
qed

subsection \<open>Session end\<close>

text \<open>
  C1, as claimed, fails. After two points are captured and the session ends, the \<open>end\<close>
  listener has run, and still both points are held and their markers and the line are in
  the scene.
\<close>

theorem C1_counterexample:
  "hitTestSourceRequested (run exponent_free init measure_one_meter) \<and>
   length (points (run exponent_free init (measure_one_meter @ [SessionEnd]))) = 2 \<and>
   points (run exponent_free init (measure_one_meter @ [SessionEnd])) \<noteq> [] \<and>
   scene (run exponent_free init (measure_one_meter @ [SessionEnd])) = [0, 1, 2, 3, 4, 5] \<and>
   map mesh (points (run exponent_free init (measure_one_meter @ [SessionEnd]))) = [3, 4]"
  by (simp add: handler_defs example_defs)

text \<open>
  C1, amended. The end of the session leaves the captured points, the scene, the line,
  the reticle and the measurement labels as they were; where the listener is attached it
  clears the hit-test source and its request flag, shows the intro screen and hides the
  overlay.
\<close>

theorem C1_session_end:
  "points (step nts s SessionEnd) = points s \<and>
   scene (step nts s SessionEnd) = scene s \<and>
   measurementLine (step nts s SessionEnd) = measurementLine s \<and>
   reticle_visible (step nts s SessionEnd) = reticle_visible s \<and>
   reticle_matrix (step nts s SessionEnd) = reticle_matrix s \<and>
   distLabel (step nts s SessionEnd) = distLabel s \<and>
   p1Label (step nts s SessionEnd) = p1Label s \<and>
   p2Label (step nts s SessionEnd) = p2Label s \<and>
   instructionText (step nts s SessionEnd) = instructionText s \<and>
   actionBtn_innerText (step nts s SessionEnd) = actionBtn_innerText s \<and>
   actionBtn_disabled (step nts s SessionEnd) = actionBtn_disabled s \<and>
   (hitTestSourceRequested s \<longrightarrow>
      \<not> hitTestSourceRequested (step nts s SessionEnd) \<and>
      \<not> hitTestSource (step nts s SessionEnd) \<and>
      introScreen_display (step nts s SessionEnd) = ''flex'' \<and>
      uiDiv_display (step nts s SessionEnd) = ''none'')"
  by (simp add: sessionEnd_def)

theorem C1_witness:
  "hitTestSourceRequested (run exponent_free init measure_one_meter) \<and>
   introScreen_display (step exponent_free (run exponent_free init measure_one_meter) SessionEnd) = ''flex'' \<and>
   uiDiv_display (step exponent_free (run exponent_free init measure_one_meter) SessionEnd) = ''none'' \<and>
   length (points (step exponent_free (run exponent_free init measure_one_meter) SessionEnd)) = 2"
proof -
  have req: "hitTestSourceRequested (run exponent_free init measure_one_meter)"
    by (simp add: handler_defs example_defs)
  from C1_session_end [of exponent_free "run exponent_free init measure_one_meter"] req
    measured_two_points
  show ?thesis by simp
qed

subsection \<open>The reticle after a frame\<close>

text \<open>
  C3, as claimed, fails. A session ends while the reticle shows and the next one starts;
  its first frame arrives before a hit-test source is held and has no intersection, and
  the reticle is still visible with the pose of the earlier session.
\<close>

theorem C3_counterexample:
  "\<not> hitTestSource (run exponent_free init restart_while_aiming) \<and>
   length (points (run exponent_free init restart_while_aiming)) < 2 \<and>
   reticle_visible (step exponent_free (run exponent_free init restart_while_aiming) (Frame (Some []))) \<and>
   reticle_matrix (step exponent_free (run exponent_free init restart_while_aiming) (Frame (Some [])))
     = pose_at 0 0 0"
  by (simp add: handler_defs example_defs)

text \<open>
  C3, amended. After a frame processed while a hit-test source is held, the reticle is
  visible exactly when the frame has an intersection and fewer than two points are held,
  and then its matrix is the first intersection's transform. A frame processed while no
  source is held leaves the reticle's visibility and matrix as they were.
\<close>

theorem C3_reticle_after_frame:
  "(hitTestSource s \<longrightarrow>
      (reticle_visible (render s (Some hits)) \<longleftrightarrow> hits \<noteq> [] \<and> length (points s) < 2) \<and>
      (reticle_visible (render s (Some hits)) \<longrightarrow> reticle_matrix (render s (Some hits)) = hd hits)) \<and>
   (\<not> hitTestSource s \<longrightarrow>
      reticle_visible (render s (Some hits)) = reticle_visible s \<and>
      reticle_matrix (render s (Some hits)) = reticle_matrix s)"
  by (simp add: render_def Let_def split: list.split)

theorem C3_witness:
  "hitTestSource (run exponent_free init [StartClick, Frame (Some []), HitTestSourceResolved]) \<and>
   reticle_visible (render (run exponent_free init [StartClick, Frame (Some []), HitTestSourceResolved])
     (Some [pose_at 1 2 3])) \<and>
   reticle_matrix (render (run exponent_free init [StartClick, Frame (Some []), HitTestSourceResolved])
     (Some [pose_at 1 2 3])) = pose_at 1 2 3 \<and>
   \<not> reticle_visible (render (run exponent_free init [StartClick, Frame (Some []), HitTestSourceResolved])
     (Some [])) \<and>
   \<not> hitTestSource init \<and>
   reticle_visible (render init (Some [pose_at 1 2 3])) = reticle_visible init"
proof -
  let ?s = "run exponent_free init [StartClick, Frame (Some []), HitTestSourceResolved]"
  have src: "hitTestSource ?s"
    by (simp add: handler_defs example_defs)
  have none: "length (points ?s) < 2"
    by (simp add: init_def)
  have nosrc: "\<not> hitTestSource init"
    by (simp add: init_def)
  from C3_reticle_after_frame [of ?s "[pose_at 1 2 3]"] C3_reticle_after_frame [of ?s "[]"]
    C3_reticle_after_frame [of init "[pose_at 1 2 3]"] src none nosrc
  show ?thesis by simp
qed

subsection \<open>Reset\<close>

lemma set_foldl_scene_remove:
  "distinct sc \<Longrightarrow>
     set (foldl (\<lambda>sc p. scene_remove (mesh p) sc) sc ps) = set sc - mesh ` set ps \<and>
     distinct (foldl (\<lambda>sc p. scene_remove (mesh p) sc) sc ps)"
proof (induction ps arbitrary: sc)
  case Nil
  then show ?case by simp
next
  case (Cons p ps)
  have d: "distinct (scene_remove (mesh p) sc)"
    using Cons.prems by (simp add: scene_remove_def)
  have s: "set (scene_remove (mesh p) sc) = set sc - {mesh p}"
    using Cons.prems by (simp add: scene_remove_def)
  from Cons.IH [OF d] s show ?case
    by auto
qed

lemma scene_resetMeasurement:
  assumes "distinct (scene s)"
  shows "set (scene (resetMeasurement s)) =
           set (scene s) - mesh ` set (points s) - set_option (measurementLine s)"
    and "distinct (scene (resetMeasurement s))"
  using set_foldl_scene_remove [OF assms, of "points s"]
  by (auto simp: resetMeasurement_def Let_def scene_remove_def split: option.split)

lemma scene_calculateDistance [simp]: "scene (calculateDistance nts s) = scene s"
  by (simp add: calculateDistance_def Let_def)

lemma distinct_scene_drawLine: "distinct (scene s) \<Longrightarrow> distinct (scene (drawLine s))"
  by (simp add: drawLine_def Let_def scene_add_def)

lemma distinct_scene_updateUIState:
  "distinct (scene s) \<Longrightarrow> distinct (scene (updateUIState nts s))"
  by (simp add: updateUIState_def distinct_scene_drawLine)

lemma distinct_scene_onSelect: "distinct (scene s) \<Longrightarrow> distinct (scene (onSelect nts s))"
  by (simp add: onSelect_def Let_def distinct_scene_updateUIState scene_add_def)

lemma distinct_scene_step:
  assumes "distinct (scene s)"
  shows "distinct (scene (step nts s e))"
proof (cases e)
  case (Frame frame)
  then show ?thesis using assms
    by (simp add: render_def Let_def split: option.split list.split)
next
  case Select
  then show ?thesis using assms by (simp add: distinct_scene_onSelect)
next
  case ActionClick
  then show ?thesis using assms
    by (simp add: actionClick_def Let_def distinct_scene_onSelect)
next
  case ResetClick
  then show ?thesis using scene_resetMeasurement(2) [OF assms] by simp
next
  case (UnitChange u)
  then show ?thesis using assms by (simp add: unitChange_def)
qed (use assms in \<open>simp_all add: startClick_def sessionEnd_def\<close>)

lemma distinct_scene_run: "distinct (scene s) \<Longrightarrow> distinct (scene (run nts s es))"
  by (induction es arbitrary: s) (simp_all add: distinct_scene_step)

lemma distinct_scene_reachable: "distinct (scene (run nts init es))"
  by (rule distinct_scene_run) (simp add: init_def)

text \<open>
  C8. Whatever the number of points, \<open>resetMeasurement\<close> empties the point list, removes
  exactly the markers and the line from the scene, clears the line, restores the labels
  and the action button, and leaves the phase at awaiting or aiming for point 1. The
  scene's children are distinct in every reachable state (\<open>distinct_scene_reachable\<close>).
\<close>

theorem C8_reset:
  assumes "distinct (scene s)"
  shows "points (resetMeasurement s) = [] \<and>
         measurementLine (resetMeasurement s) = None \<and>
         set (scene (resetMeasurement s)) =
           set (scene s) - mesh ` set (points s) - set_option (measurementLine s) \<and>
         distLabel (resetMeasurement s) = ''0.00'' \<and>
         p1Label (resetMeasurement s) = ''---'' \<and>
         p2Label (resetMeasurement s) = ''---'' \<and>
         actionBtn_innerText (resetMeasurement s) = ''Set Point 1'' \<and>
         actionBtn_disabled (resetMeasurement s) = False \<and>
         instructionText (resetMeasurement s) = ''Aim at a surface and tap Set Point 1.'' \<and>
         spec_phase (resetMeasurement s) = (if reticle_visible s then AIMING_P1 else AWAITING_SURFACE)"
  using scene_resetMeasurement(1) [OF assms]
  by (simp add: resetMeasurement_def Let_def spec_phase_def)

theorem C8_witness:
  "distinct (scene (run exponent_free init measure_one_meter)) \<and>
   scene (run exponent_free init measure_one_meter) = [0, 1, 2, 3, 4, 5] \<and>
   map mesh (points (run exponent_free init measure_one_meter)) = [3, 4] \<and>
   measurementLine (run exponent_free init measure_one_meter) = Some 5 \<and>
   set (scene (resetMeasurement (run exponent_free init measure_one_meter))) = {0, 1, 2} \<and>
   points (resetMeasurement (run exponent_free init measure_one_meter)) = [] \<and>
   distLabel (resetMeasurement (run exponent_free init measure_one_meter)) = ''0.00'' \<and>
   distinct (scene init) \<and>
   points (resetMeasurement init) = [] \<and>
   set (scene (resetMeasurement init)) = {0, 1, 2}"
proof -
  let ?s = "run exponent_free init measure_one_meter"
  have sc: "scene ?s = [0, 1, 2, 3, 4, 5]"
    by (simp add: handler_defs example_defs)
  have ms: "map mesh (points ?s) = [3, 4]"
    by (simp add: measured_points)
  have ln: "measurementLine ?s = Some 5"
    by (simp add: handler_defs example_defs)
  have d: "distinct (scene ?s)"
    by (simp add: sc)
  have d0: "distinct (scene init)"
    by (simp add: init_def)
  have i0: "scene init = [0, 1, 2]" "points init = []" "measurementLine init = None"
    by (simp_all add: init_def)
  have img: "mesh ` set (points ?s) = {3, 4}"
    by (simp add: measured_points)
  note r = C8_reset [OF d]
  note r0 = C8_reset [OF d0]
  have "set (scene (resetMeasurement ?s)) =
      set (scene ?s) - mesh ` set (points ?s) - set_option (measurementLine ?s)"
    by (rule r [THEN conjunct2, THEN conjunct2, THEN conjunct1])
  also have "\<dots> = {0, 1, 2}"
    unfolding sc img ln by auto
  finally have a: "set (scene (resetMeasurement ?s)) = {0, 1, 2}" .
  have b: "points (resetMeasurement ?s) = []"
    by (rule r [THEN conjunct1])
  have b': "distLabel (resetMeasurement ?s) = ''0.00''"
    by (rule r [THEN conjunct2, THEN conjunct2, THEN conjunct2, THEN conjunct1])
  have "set (scene (resetMeasurement init)) =
      set (scene init) - mesh ` set (points init) - set_option (measurementLine init)"
    by (rule r0 [THEN conjunct2, THEN conjunct2, THEN conjunct1])
  also have "\<dots> = {0, 1, 2}"
    unfolding i0 by simp
  finally have c: "set (scene (resetMeasurement init)) = {0, 1, 2}" .
  have e: "points (resetMeasurement init) = []"
    by (rule r0 [THEN conjunct1])
  show ?thesis
    by (intro conjI) (fact d sc ms ln a b b' d0 e c)+
qed

end
